theory Spec2Isabelle
  imports Main
begin

section \<open>The lock endpoint of consulate (\<^verbatim>\<open>consulate/api/lock.py\<close>)\<close>

text \<open>
  The class \<^verbatim>\<open>Lock\<close> wraps a session of the remote store and a key of its key-value
  layer. Its methods mutate four fields of the object and call the session endpoint, the
  key-value layer and the request adapter. The model threads one record through every
  method: the four fields, the state of the remote side, and the list of remote calls
  issued so far (oldest first), each with the answer it got.

  Naming: a leading underscore of the source is written \<open>u_\<close>, so \<^verbatim>\<open>_acquire\<close> is
  \<open>u_acquire\<close> and the field \<^verbatim>\<open>_item\<close> is \<open>u_item\<close>.
\<close>

subsection \<open>Data\<close>

text \<open>
  \<^verbatim>\<open>StoppableThread\<close>: a thread with the flag \<^verbatim>\<open>active\<close>, set to \<^verbatim>\<open>True\<close> by its
  constructor. The target of the only thread the class creates is the closure
  \<^verbatim>\<open>renew\<close>, which captures the object and the local \<^verbatim>\<open>timer_ttl\<close>; the record keeps
  that captured number.
\<close>

record StoppableThread =
  active :: bool
  daemon :: bool
  timer_ttl :: int

text \<open>The exceptions that leave the methods; \<open>Raised\<close> is one raised by the caller's own code.\<close>

datatype error = ValueError | LockFailure | AttributeError | TypeError | Raised string

text \<open>The query of a write to the key-value layer: \<^verbatim>\<open>{'acquire': sid}\<close> or \<^verbatim>\<open>{'release': sid}\<close>.\<close>

datatype query = Acquire "string option" | Release "string option"

text \<open>
  What the object does to the outside, with the arguments as passed (a Python \<^verbatim>\<open>None\<close>
  is \<open>None\<close>) and the answer received.
\<close>

datatype event =
    SessionCreate "string option" "string option" "string option"
  | Put "string option" query "string option" bool
  | AdapterDelete "string option" bool
  | SessionDestroy "string option" bool
  | ThreadStart int

text \<open>
  The collaborators are not part of the file: the session endpoint (\<^verbatim>\<open>create\<close>,
  \<^verbatim>\<open>destroy\<close>), \<^verbatim>\<open>_put_response_body\<close> of the base endpoint, \<^verbatim>\<open>delete\<close> of the
  adapter, and \<^verbatim>\<open>uuid.uuid4\<close>. They are parameters of the model: functions on a state
  \<open>'w\<close> of the remote side that return their answer and the next state. Only the
  truth value of an answer is used by the source where it is used at all.
\<close>

record 'w collaborators =
  session_create :: "string option \<Rightarrow> string option \<Rightarrow> 'w \<Rightarrow> string option \<times> 'w"
  session_destroy :: "string option \<Rightarrow> 'w \<Rightarrow> bool \<times> 'w"
  put_response_body :: "string option \<Rightarrow> query \<Rightarrow> string option \<Rightarrow> 'w \<Rightarrow> bool \<times> 'w"
  adapter_delete :: "string option \<Rightarrow> 'w \<Rightarrow> bool \<times> 'w"
  uuid4 :: "'w \<Rightarrow> string \<times> 'w"

record 'w Lock =
  u_session_id :: "string option"
  u_ttl_timer :: "StoppableThread option"
  u_item :: "string option"
  u_prefix :: string
  remote :: 'w
  events :: "event list"

subsection \<open>Helpers of the language\<close>

text \<open>\<^verbatim>\<open>str(n)\<close> of a Python integer: decimal digits, a minus sign when negative.\<close>

fun str_nat :: "nat \<Rightarrow> string" where
  "str_nat n =
     (if n < 10 then [''0123456789'' ! n]
      else str_nat (n div 10) @ [''0123456789'' ! (n mod 10)])"

declare str_nat.simps [simp del]

definition str :: "int \<Rightarrow> string" where
  "str i = (if i < 0 then CHR ''-'' # str_nat (nat (- i)) else str_nat (nat i))"

subsection \<open>Remote calls, recorded\<close>

definition call_create :: "'w collaborators \<Rightarrow> string option \<Rightarrow> string option \<Rightarrow> 'w Lock \<Rightarrow> string option \<times> 'w Lock" where
  "call_create c behavior ttl s =
     (case session_create c behavior ttl (remote s) of
        (sid, w) \<Rightarrow> (sid, s\<lparr>remote := w, events := events s @ [SessionCreate behavior ttl sid]\<rparr>))"

definition call_put :: "'w collaborators \<Rightarrow> string option \<Rightarrow> query \<Rightarrow> string option \<Rightarrow> 'w Lock \<Rightarrow> bool \<times> 'w Lock" where
  "call_put c path q payload s =
     (case put_response_body c path q payload (remote s) of
        (r, w) \<Rightarrow> (r, s\<lparr>remote := w, events := events s @ [Put path q payload r]\<rparr>))"

definition call_delete :: "'w collaborators \<Rightarrow> string option \<Rightarrow> 'w Lock \<Rightarrow> 'w Lock" where
  "call_delete c path s =
     (case adapter_delete c path (remote s) of
        (r, w) \<Rightarrow> s\<lparr>remote := w, events := events s @ [AdapterDelete path r]\<rparr>)"

definition call_destroy :: "'w collaborators \<Rightarrow> string option \<Rightarrow> 'w Lock \<Rightarrow> 'w Lock" where
  "call_destroy c sid s =
     (case session_destroy c sid (remote s) of
        (r, w) \<Rightarrow> s\<lparr>remote := w, events := events s @ [SessionDestroy sid r]\<rparr>)"

subsection \<open>The methods\<close>

text \<open>
  \<^verbatim>\<open>__init__\<close>: no session, no timer, a fresh token as item, the default prefix.
\<close>

definition DEFAULT_PREFIX :: string where
  "DEFAULT_PREFIX = ''consulate/locks''"

definition init :: "'w collaborators \<Rightarrow> 'w \<Rightarrow> 'w Lock" where
  "init c w =
     (case uuid4 c w of
        (u, w') \<Rightarrow>
          \<lparr>u_session_id = None, u_ttl_timer = None, u_item = Some u,
           u_prefix = DEFAULT_PREFIX, remote = w', events = []\<rparr>)"

text \<open>The property \<^verbatim>\<open>key\<close> returns the field \<^verbatim>\<open>_item\<close>.\<close>

definition key :: "'w Lock \<Rightarrow> string option" where
  "key s = u_item s"

text \<open>\<^verbatim>\<open>prefix(value)\<close>: \<^verbatim>\<open>self._prefix = value or ''\<close>.\<close>

definition prefix :: "string option \<Rightarrow> 'w Lock \<Rightarrow> 'w Lock" where
  "prefix v s = s\<lparr>u_prefix := (case v of None \<Rightarrow> [] | Some p \<Rightarrow> p)\<rparr>"

text \<open>
  \<^verbatim>\<open>_acquire\<close>, in the three parts of its body. Lines 88 to 94: the session. A
  supplied \<^verbatim>\<open>ttl\<close> below 10 raises before anything else is done. The \<^verbatim>\<open>ttl\<close> is a
  number of seconds, a Python integer or \<^verbatim>\<open>None\<close>; the session is created with the
  string \<^verbatim>\<open>"{}s".format(str(ttl))\<close>.
\<close>

definition create_session :: "'w collaborators \<Rightarrow> string option \<Rightarrow> int option \<Rightarrow> 'w Lock \<Rightarrow> error + 'w Lock" where
  "create_session c behavior ttl s =
     (case ttl of
        None \<Rightarrow>
          (case call_create c behavior None s of
             (sid, s1) \<Rightarrow> Inr (s1\<lparr>u_session_id := sid\<rparr>))
      | Some t \<Rightarrow>
          if t < 10 then Inl ValueError
          else
            (case call_create c behavior (Some (str t @ ''s'')) s of
               (sid, s1) \<Rightarrow> Inr (s1\<lparr>u_session_id := sid\<rparr>)))"

text \<open>
  Lines 96 to 101: the item is \<^verbatim>\<open>'/'.join([self._prefix, key or str(uuid.uuid4())])\<close>,
  where the token is drawn only when the key is \<^verbatim>\<open>None\<close> or empty; then the write
  with the acquire query. The answer of the write is returned.
\<close>

definition key_or_uuid :: "'w collaborators \<Rightarrow> string option \<Rightarrow> 'w Lock \<Rightarrow> string \<times> 'w Lock" where
  "key_or_uuid c k s =
     (case k of
        None \<Rightarrow> (case uuid4 c (remote s) of (u, w) \<Rightarrow> (u, s\<lparr>remote := w\<rparr>))
      | Some n \<Rightarrow>
          if n = [] then (case uuid4 c (remote s) of (u, w) \<Rightarrow> (u, s\<lparr>remote := w\<rparr>))
          else (n, s))"

definition write_item :: "'w collaborators \<Rightarrow> string option \<Rightarrow> string option \<Rightarrow> 'w Lock \<Rightarrow> bool \<times> 'w Lock" where
  "write_item c k v s =
     (case key_or_uuid c k s of
        (n, s1) \<Rightarrow>
          (let s2 = s1\<lparr>u_item := Some (u_prefix s1 @ ''/'' @ n)\<rparr>
           in call_put c (u_item s2) (Acquire (u_session_id s2)) v s2))"

text \<open>
  Lines 107 to 120: with a \<^verbatim>\<open>ttl\<close>, \<^verbatim>\<open>timer_ttl = ttl - renew_before_ttl\<close>; when it is
  positive a new thread object replaces the field, is made a daemon and is started.
\<close>

definition start_timer :: "int option \<Rightarrow> int \<Rightarrow> 'w Lock \<Rightarrow> 'w Lock" where
  "start_timer ttl renew_before_ttl s =
     (case ttl of
        None \<Rightarrow> s
      | Some t \<Rightarrow>
          (let tt = t - renew_before_ttl
           in if tt > 0
              then s\<lparr>u_ttl_timer := Some \<lparr>active = True, daemon = True, timer_ttl = tt\<rparr>,
                     events := events s @ [ThreadStart tt]\<rparr>
              else s))"

text \<open>
  The whole of \<^verbatim>\<open>_acquire\<close>. A raise leaves the object as it is at that point, so the
  state is returned beside the exception. When the write is refused the session is
  destroyed and \<^verbatim>\<open>LockFailure\<close> raised (lines 102 to 104).
\<close>

definition u_acquire :: "'w collaborators \<Rightarrow> string option \<Rightarrow> string option \<Rightarrow> string option \<Rightarrow> int option \<Rightarrow> int \<Rightarrow> 'w Lock \<Rightarrow> (error + unit) \<times> 'w Lock" where
  "u_acquire c k v behavior ttl renew_before_ttl s =
     (case create_session c behavior ttl s of
        Inl e \<Rightarrow> (Inl e, s)
      | Inr s1 \<Rightarrow>
          (case write_item c k v s1 of
             (response, s2) \<Rightarrow>
               if \<not> response
               then (Inl LockFailure, call_destroy c (u_session_id s2) s2)
               else (Inr (), start_timer ttl renew_before_ttl s2)))"

text \<open>
  \<^verbatim>\<open>_release\<close>. Line 124 assigns to an attribute of \<^verbatim>\<open>self._ttl_timer\<close>; on \<^verbatim>\<open>None\<close>
  Python raises \<^verbatim>\<open>AttributeError\<close> there, before the remote calls. Otherwise the flag
  of the thread is cleared. Line 125 hands the list \<^verbatim>\<open>[self._item]\<close> to
  \<^verbatim>\<open>_put_response_body\<close> of the base endpoint, which joins the parts of the path with
  slashes before it sends anything; the base endpoint is not part of the file, and this
  one behaviour of it is taken as known: on the item \<^verbatim>\<open>None\<close> the join raises
  \<^verbatim>\<open>TypeError\<close>, so the method ends there with the flag cleared and no call issued.
  With an item: the write with the release query, the delete, the destroy, and the item
  and the session are set to \<^verbatim>\<open>None\<close>. The timer field is not assigned.
\<close>

definition u_release :: "'w collaborators \<Rightarrow> 'w Lock \<Rightarrow> (error + unit) \<times> 'w Lock" where
  "u_release c s =
     (case u_ttl_timer s of
        None \<Rightarrow> (Inl AttributeError, s)
      | Some th \<Rightarrow>
          (let s1 = s\<lparr>u_ttl_timer := Some (th\<lparr>active := False\<rparr>)\<rparr>
           in case u_item s1 of
                None \<Rightarrow> (Inl TypeError, s1)
              | Some path \<Rightarrow>
                  (let s2 = snd (call_put c (u_item s1) (Release (u_session_id s1)) None s1);
                       s3 = call_delete c (u_item s2) s2;
                       s4 = call_destroy c (u_session_id s3) s3
                   in (Inr (), s4\<lparr>u_item := None, u_session_id := None\<rparr>))))"

text \<open>
  \<^verbatim>\<open>acquire\<close> is a generator under \<^verbatim>\<open>contextlib.contextmanager\<close>: \<^verbatim>\<open>_acquire\<close>, one
  \<^verbatim>\<open>yield\<close>, \<^verbatim>\<open>_release\<close>, with no \<^verbatim>\<open>try\<close> around the \<^verbatim>\<open>yield\<close>. In a \<^verbatim>\<open>with\<close>
  statement the body runs at the \<^verbatim>\<open>yield\<close>. When the body ends normally the generator
  is resumed and runs \<^verbatim>\<open>_release\<close>; when the body raises, the exception is thrown into
  the generator at the \<^verbatim>\<open>yield\<close>, nothing catches it there, and it leaves the generator
  without reaching line 68. The body is a parameter: a function on the state that ends
  normally or with an exception.
\<close>

definition acquire :: "'w collaborators \<Rightarrow> string option \<Rightarrow> string option \<Rightarrow> string option \<Rightarrow> int option \<Rightarrow> int \<Rightarrow> ('w Lock \<Rightarrow> (error + unit) \<times> 'w Lock) \<Rightarrow> 'w Lock \<Rightarrow> (error + unit) \<times> 'w Lock" where
  "acquire c k v behavior ttl renew_before_ttl body s =
     (case u_acquire c k v behavior ttl renew_before_ttl s of
        (Inl e, s1) \<Rightarrow> (Inl e, s1)
      | (Inr _, s1) \<Rightarrow>
          (case body s1 of
             (Inl e, s2) \<Rightarrow> (Inl e, s2)
           | (Inr _, s2) \<Rightarrow> u_release c s2))"

subsection \<open>The renewal thread\<close>

text \<open>
  The closure \<^verbatim>\<open>renew\<close> (lines 112 to 117) runs in its own thread beside the caller:
  \<^verbatim>\<open>while self._ttl_timer.active: if self._session.renew(self._session_id): time.sleep(timer_ttl)\<close>.
  What it reads changes under it, so every pass of the loop is given what it meets there:
  the value of the flag at the loop test, the session id read from the object, and the
  answer of \<^verbatim>\<open>renew\<close>. The list of passes is finite; when the list ends with the flag
  still set, the thread is still in its loop (\<open>Running\<close>).
\<close>

record pass =
  seen_active :: bool
  seen_session_id :: "string option"
  renew_answer :: bool

datatype task_event = LogRenewing | SessionRenew "string option" bool | Sleep int | LogCeasing

datatype task_status = Running | Exited

fun renew :: "int \<Rightarrow> pass list \<Rightarrow> task_event list \<times> task_status" where
  "renew tt [] = ([], Running)"
| "renew tt (p # ps) =
     (if seen_active p
      then (case renew tt ps of
              (es, st) \<Rightarrow>
                ([LogRenewing, SessionRenew (seen_session_id p) (renew_answer p)]
                   @ (if renew_answer p then [Sleep tt] else []) @ es, st))
      else ([LogCeasing], Exited))"

text \<open>Readings of a thread's run: the answers of its renew calls, and its sleeps.\<close>

fun renew_calls :: "task_event list \<Rightarrow> bool list" where
  "renew_calls [] = []"
| "renew_calls (SessionRenew sid r # es) = r # renew_calls es"
| "renew_calls (e # es) = renew_calls es"

fun sleeps :: "task_event list \<Rightarrow> int list" where
  "sleeps [] = []"
| "sleeps (Sleep d # es) = d # sleeps es"
| "sleeps (e # es) = sleeps es"

subsection \<open>A remote side to run the methods on\<close>

text \<open>
  A small stand-in for the store, used where a method is run on concrete input. Its state
  is the list of paths locked by other sessions: a write with the acquire query is
  answered by whether the path is free, every other call succeeds, the session is always
  \<open>s1\<close> and the token \<open>uuid\<close>.
\<close>

definition store :: "string list collaborators" where
  "store =
     \<lparr>session_create = (\<lambda>behavior ttl w. (Some ''s1'', w)),
      session_destroy = (\<lambda>sid w. (True, w)),
      put_response_body =
        (\<lambda>path q payload w.
           (case q of
              Acquire sid \<Rightarrow> (case path of None \<Rightarrow> False | Some x \<Rightarrow> x \<notin> set w)
            | Release sid \<Rightarrow> True, w)),
      adapter_delete = (\<lambda>path w. (True, w)),
      uuid4 = (\<lambda>w. (''uuid'', w))\<rparr>"

text \<open>
  A second stand-in, for a remote side that does not let go: its state is the list of
  live sessions, \<open>create\<close> adds the session \<open>s1\<close>, every write with the acquire query is
  refused, and \<open>destroy\<close> answers false and leaves the session live.
\<close>

definition stuck_store :: "string list collaborators" where
  "stuck_store =
     \<lparr>session_create = (\<lambda>behavior ttl w. (Some ''s1'', ''s1'' # w)),
      session_destroy = (\<lambda>sid w. (False, w)),
      put_response_body =
        (\<lambda>path q payload w. (case q of Acquire sid \<Rightarrow> False | Release sid \<Rightarrow> True, w)),
      adapter_delete = (\<lambda>path w. (True, w)),
      uuid4 = (\<lambda>w. (''uuid'', w))\<rparr>"

text \<open>The new events of a step: those of the later state after the ones of the earlier.\<close>

definition since :: "'w Lock \<Rightarrow> 'w Lock \<Rightarrow> event list" where
  "since s s' = drop (length (events s)) (events s')"

text \<open>The threads started among some events, by the \<open>timer_ttl\<close> their closure holds.\<close>

fun thread_starts :: "event list \<Rightarrow> int list" where
  "thread_starts [] = []"
| "thread_starts (ThreadStart tt # es) = tt # thread_starts es"
| "thread_starts (e # es) = thread_starts es"

section \<open>Properties\<close>

subsection \<open>Effects of the parts of \<open>u_acquire\<close>\<close>

lemma create_session_events:
  "create_session c behavior ttl s = Inr s1 \<Longrightarrow>
     events s1 =
       events s @ [SessionCreate behavior (map_option (\<lambda>t. str t @ ''s'') ttl) (u_session_id s1)]"
  by (auto simp: create_session_def call_create_def split: option.splits prod.splits if_splits)

lemma create_session_frame:
  "create_session c behavior ttl s = Inr s1 \<Longrightarrow>
     u_prefix s1 = u_prefix s \<and> u_ttl_timer s1 = u_ttl_timer s \<and> u_item s1 = u_item s"
  by (auto simp: create_session_def call_create_def split: option.splits prod.splits if_splits)

lemma write_item_effect:
  "write_item c k v s1 = (r, s2) \<Longrightarrow>
     u_item s2 = Some (u_prefix s1 @ ''/'' @ fst (key_or_uuid c k s1)) \<and>
     events s2 = events s1 @ [Put (u_item s2) (Acquire (u_session_id s1)) v r] \<and>
     u_session_id s2 = u_session_id s1 \<and> u_ttl_timer s2 = u_ttl_timer s1 \<and>
     u_prefix s2 = u_prefix s1"
  by (auto simp: write_item_def key_or_uuid_def call_put_def Let_def
           split: option.splits prod.splits if_splits)

subsection \<open>A lease below the minimum\<close>

text \<open>
  C6. With a supplied \<open>ttl\<close> below 10, \<open>u_acquire\<close> and the scoped \<open>acquire\<close> end with
  \<open>ValueError\<close> (the source's exception for the invalid parameter) and the state they
  return is the state they were given: no session is created, no write is attempted, no
  event is added, and the caller's body is not run.
\<close>

theorem acquire_ttl_below_minimum:
  "ttl < 10 \<Longrightarrow>
     u_acquire c k v behavior (Some ttl) renew_before_ttl s = (Inl ValueError, s) \<and>
     acquire c k v behavior (Some ttl) renew_before_ttl body s = (Inl ValueError, s) \<and>
     since s (snd (u_acquire c k v behavior (Some ttl) renew_before_ttl s)) = []"
  by (simp add: acquire_def u_acquire_def create_session_def since_def)

theorem acquire_ttl_below_minimum_witness:
  "(9::int) < 10 \<and>
   u_acquire store (Some ''job-1'') None None (Some 9) 5 (init store [])
     = (Inl ValueError, init store []) \<and>
   acquire store (Some ''job-1'') None None (Some 9) 5 (\<lambda>s. (Inr (), s)) (init store [])
     = (Inl ValueError, init store []) \<and>
   events (init store []) = []"
  using acquire_ttl_below_minimum
          [of 9 store "Some ''job-1''" None None 5 "init store []" "\<lambda>s. (Inr (), s)"]
  by (simp add: init_def store_def)

subsection \<open>Readings of traces\<close>

lemma thread_starts_append [simp]:
  "thread_starts (xs @ ys) = thread_starts xs @ thread_starts ys"
  by (induction xs rule: thread_starts.induct) simp_all

lemma sleeps_append [simp]: "sleeps (xs @ ys) = sleeps xs @ sleeps ys"
  by (induction xs rule: sleeps.induct) simp_all

lemma renew_calls_append [simp]: "renew_calls (xs @ ys) = renew_calls xs @ renew_calls ys"
  by (induction xs rule: renew_calls.induct) simp_all

lemma sleeps_renew:
  "sleeps (fst (renew tt ps))
     = replicate (length (filter renew_answer (takeWhile seen_active ps))) tt"
  by (induction ps) (auto split: prod.splits)

lemma renew_calls_renew:
  "renew_calls (fst (renew tt ps)) = map renew_answer (takeWhile seen_active ps)"
  by (induction ps) (auto split: prod.splits)

lemma status_renew:
  "snd (renew tt ps) = (if list_all seen_active ps then Running else Exited)"
  by (induction ps) (auto split: prod.splits)

subsection \<open>The methods on the stand-in store\<close>

lemma store_init:
  "init store w =
     \<lparr>u_session_id = None, u_ttl_timer = None, u_item = Some ''uuid'',
      u_prefix = ''consulate/locks'', remote = w, events = []\<rparr>"
  by (simp add: init_def store_def DEFAULT_PREFIX_def)

lemma store_create:
  "create_session store behavior ttl s =
     (case ttl of
        None \<Rightarrow>
          Inr (s\<lparr>u_session_id := Some ''s1'',
                 events := events s @ [SessionCreate behavior None (Some ''s1'')]\<rparr>)
      | Some t \<Rightarrow>
          if t < 10 then Inl ValueError
          else Inr (s\<lparr>u_session_id := Some ''s1'',
                      events := events s @ [SessionCreate behavior (Some (str t @ ''s'')) (Some ''s1'')]\<rparr>))"
  by (simp add: create_session_def call_create_def store_def split: option.splits)

lemma store_write_item:
  "write_item store (Some (x # xs)) v s =
     (u_prefix s @ ''/'' @ x # xs \<notin> set (remote s),
      s\<lparr>u_item := Some (u_prefix s @ ''/'' @ x # xs),
        events := events s @
          [Put (Some (u_prefix s @ ''/'' @ x # xs)) (Acquire (u_session_id s)) v
             (u_prefix s @ ''/'' @ x # xs \<notin> set (remote s))]\<rparr>)"
  by (simp add: write_item_def key_or_uuid_def call_put_def store_def Let_def)

lemma store_destroy:
  "call_destroy store sid s = s\<lparr>events := events s @ [SessionDestroy sid True]\<rparr>"
  by (simp add: call_destroy_def store_def)

lemma store_release:
  "snd (call_put store path (Release sid) None s)
     = s\<lparr>events := events s @ [Put path (Release sid) None True]\<rparr>"
  by (simp add: call_put_def store_def)

lemma store_delete:
  "call_delete store path s = s\<lparr>events := events s @ [AdapterDelete path True]\<rparr>"
  by (simp add: call_delete_def store_def)

lemmas store_run =
  store_init store_create store_write_item store_destroy store_release store_delete

subsection \<open>The outcome of \<open>u_acquire\<close> by the answer of the write\<close>

lemma u_acquire_success:
  assumes "create_session c behavior ttl s = Inr s1" and "fst (write_item c k v s1)"
  shows "u_acquire c k v behavior ttl renew_before_ttl s
           = (Inr (), start_timer ttl renew_before_ttl (snd (write_item c k v s1)))"
  using assms by (cases "write_item c k v s1") (simp add: u_acquire_def)

lemma u_acquire_refused:
  assumes "create_session c behavior ttl s = Inr s1" and "\<not> fst (write_item c k v s1)"
  shows "u_acquire c k v behavior ttl renew_before_ttl s
           = (Inl LockFailure, call_destroy c (u_session_id s1) (snd (write_item c k v s1)))"
proof -
  obtain r s2 where w: "write_item c k v s1 = (r, s2)"
    by (cases "write_item c k v s1")
  with assms show ?thesis
    using write_item_effect [OF w] by (simp add: u_acquire_def)
qed

lemma start_timer_effect:
  "start_timer ttl rb s2 =
     (case ttl of
        None \<Rightarrow> s2
      | Some t \<Rightarrow>
          if 0 < t - rb
          then s2\<lparr>u_ttl_timer := Some \<lparr>active = True, daemon = True, timer_ttl = t - rb\<rparr>,
                  events := events s2 @ [ThreadStart (t - rb)]\<rparr>
          else s2)"
  by (simp add: start_timer_def Let_def split: option.splits)

lemma u_acquire_item:
  "u_item (snd (u_acquire c k v behavior ttl rb s)) =
     (case create_session c behavior ttl s of
        Inl e \<Rightarrow> u_item s
      | Inr s1 \<Rightarrow> Some (u_prefix s @ ''/'' @ fst (key_or_uuid c k s1)))"
proof (cases "create_session c behavior ttl s")
  case (Inl e)
  then show ?thesis by (simp add: u_acquire_def)
next
  case (Inr s1)
  obtain r s2 where w: "write_item c k v s1 = (r, s2)"
    by (cases "write_item c k v s1")
  note f1 = create_session_frame [OF Inr]
  note e2 = write_item_effect [OF w]
  show ?thesis using Inr w e2 f1
    by (simp add: u_acquire_def call_destroy_def start_timer_effect
             split: prod.splits option.splits)
qed

lemma key_or_uuid_name:
  "fst (key_or_uuid c k s) =
     (case k of
        None \<Rightarrow> fst (uuid4 c (remote s))
      | Some n \<Rightarrow> if n = [] then fst (uuid4 c (remote s)) else n)"
  by (simp add: key_or_uuid_def split: option.splits prod.splits)

lemma create_session_prefix:
  "create_session c behavior ttl (prefix p s)
     = map_sum id (prefix p) (create_session c behavior ttl s)"
  by (simp add: create_session_def call_create_def prefix_def split: option.splits prod.splits)

lemma call_destroy_frame:
  "u_session_id (call_destroy c sid s) = u_session_id s \<and>
   u_item (call_destroy c sid s) = u_item s \<and>
   u_ttl_timer (call_destroy c sid s) = u_ttl_timer s \<and>
   u_prefix (call_destroy c sid s) = u_prefix s"
  by (simp add: call_destroy_def split: prod.splits)

lemma call_destroy_events:
  "\<exists>d. events (call_destroy c sid s) = events s @ [SessionDestroy sid d]"
  by (simp add: call_destroy_def split: prod.splits)

lemma u_acquire_lease:
  assumes "create_session c behavior (Some ttl) s = Inr s1" and "fst (write_item c k v s1)"
  shows "fst (u_acquire c k v behavior (Some ttl) rb s) = Inr () \<and>
         thread_starts (since s (snd (u_acquire c k v behavior (Some ttl) rb s)))
           = (if 0 < ttl - rb then [ttl - rb] else []) \<and>
         u_ttl_timer (snd (u_acquire c k v behavior (Some ttl) rb s))
           = (if 0 < ttl - rb
              then Some \<lparr>active = True, daemon = True, timer_ttl = ttl - rb\<rparr>
              else u_ttl_timer s)"
proof -
  obtain r s2 where w: "write_item c k v s1 = (r, s2)"
    by (cases "write_item c k v s1")
  note e1 = create_session_events [OF assms(1)]
  note f1 = create_session_frame [OF assms(1)]
  note e2 = write_item_effect [OF w]
  have a: "u_acquire c k v behavior (Some ttl) rb s = (Inr (), start_timer (Some ttl) rb s2)"
    using u_acquire_success [OF assms] w by simp
  have "thread_starts (since s (start_timer (Some ttl) rb s2))
           = (if 0 < ttl - rb then [ttl - rb] else [])"
    using e1 e2 by (simp add: start_timer_effect since_def)
  moreover have "u_ttl_timer (start_timer (Some ttl) rb s2)
           = (if 0 < ttl - rb
              then Some \<lparr>active = True, daemon = True, timer_ttl = ttl - rb\<rparr>
              else u_ttl_timer s)"
    using e2 f1 by (simp add: start_timer_effect)
  ultimately show ?thesis using a by simp
qed

lemma u_acquire_no_ttl_timer:
  "u_ttl_timer (snd (u_acquire c k v behavior None rb s)) = u_ttl_timer s"
proof (cases "create_session c behavior None s")
  case (Inl e)
  then show ?thesis by (simp add: u_acquire_def)
next
  case (Inr s1)
  obtain r s2 where w: "write_item c k v s1 = (r, s2)"
    by (cases "write_item c k v s1")
  note f1 = create_session_frame [OF Inr]
  note e2 = write_item_effect [OF w]
  show ?thesis
  proof (cases r)
    case True
    with w have "fst (write_item c k v s1)" by simp
    from u_acquire_success [OF Inr this] show ?thesis
      using w e2 f1 by (simp add: start_timer_effect)
  next
    case False
    with w have "\<not> fst (write_item c k v s1)" by simp
    from u_acquire_refused [OF Inr this] show ?thesis
      using w e2 f1 by (simp add: call_destroy_frame)
  qed
qed

subsection \<open>The outcome of \<open>u_release\<close> by the timer field\<close>

lemma u_release_timer:
  "u_ttl_timer (snd (u_release c s))
     = map_option (\<lambda>th. th\<lparr>active := False\<rparr>) (u_ttl_timer s)"
  by (simp add: u_release_def Let_def call_put_def call_delete_def call_destroy_def
           split: option.splits prod.splits)

lemma u_release_held:
  assumes "u_ttl_timer s = Some th" and "u_item s = Some path"
  shows "\<exists>r1 r2 r3.
           fst (u_release c s) = Inr () \<and>
           since s (snd (u_release c s)) =
             [Put (u_item s) (Release (u_session_id s)) None r1,
              AdapterDelete (u_item s) r2,
              SessionDestroy (u_session_id s) r3] \<and>
           u_item (snd (u_release c s)) = None \<and>
           u_session_id (snd (u_release c s)) = None \<and>
           u_prefix (snd (u_release c s)) = u_prefix s"
  using assms
  by (simp add: u_release_def Let_def call_put_def call_delete_def call_destroy_def since_def
           split: prod.splits)

subsection \<open>A refused write\<close>

text \<open>
  C5. When the session part of \<open>u_acquire\<close> went through (no \<open>ttl\<close>, or one of at least
  10) and the write with the acquire query is refused, \<open>u_acquire\<close> ends with
  \<open>LockFailure\<close> (the source's exception for a failed acquisition), and what it did
  outside is exactly three calls: the creation of a session, the refused write bound to
  that session, and one destroy of that same session. The answer of the destroy is not
  looked at, and the remote side is left in the state that this one destroy call returned.
\<close>

theorem refused_write_calls_destroy_once:
  assumes "create_session c behavior ttl s = Inr s1" and "\<not> fst (write_item c k v s1)"
  shows "fst (u_acquire c k v behavior ttl renew_before_ttl s) = Inl LockFailure \<and>
         since s (snd (u_acquire c k v behavior ttl renew_before_ttl s)) =
           [SessionCreate behavior (map_option (\<lambda>t. str t @ ''s'') ttl) (u_session_id s1),
            Put (Some (u_prefix s @ ''/'' @ fst (key_or_uuid c k s1)))
              (Acquire (u_session_id s1)) v False,
            SessionDestroy (u_session_id s1)
              (fst (session_destroy c (u_session_id s1)
                      (remote (snd (write_item c k v s1)))))] \<and>
         remote (snd (u_acquire c k v behavior ttl renew_before_ttl s)) =
           snd (session_destroy c (u_session_id s1) (remote (snd (write_item c k v s1))))"
proof -
  obtain r s2 where w: "write_item c k v s1 = (r, s2)"
    by (cases "write_item c k v s1")
  with assms(2) have r: "r = False" by simp
  note e1 = create_session_events [OF assms(1)]
  note f1 = create_session_frame [OF assms(1)]
  note e2 = write_item_effect [OF w]
  obtain d wd where d: "session_destroy c (u_session_id s1) (remote s2) = (d, wd)"
    by (cases "session_destroy c (u_session_id s1) (remote s2)")
  have a: "u_acquire c k v behavior ttl renew_before_ttl s
             = (Inl LockFailure, call_destroy c (u_session_id s1) s2)"
    using u_acquire_refused [OF assms] w by simp
  have "since s (call_destroy c (u_session_id s1) s2) =
      [SessionCreate behavior (map_option (\<lambda>t. str t @ ''s'') ttl) (u_session_id s1),
       Put (Some (u_prefix s @ ''/'' @ fst (key_or_uuid c k s1))) (Acquire (u_session_id s1)) v False,
       SessionDestroy (u_session_id s1) d]"
    using e1 e2 f1 d r by (simp add: since_def call_destroy_def)
  moreover have "remote (call_destroy c (u_session_id s1) s2) = wd"
    using d by (simp add: call_destroy_def)
  ultimately show ?thesis using a w d by simp
qed

theorem refused_write_calls_destroy_once_witness:
  "u_acquire store (Some ''job-1'') None None None 5 (init store [''consulate/locks/job-1''])
     = (Inl LockFailure,
        \<lparr>u_session_id = Some ''s1'', u_ttl_timer = None,
         u_item = Some ''consulate/locks/job-1'', u_prefix = ''consulate/locks'',
         remote = [''consulate/locks/job-1''],
         events = [SessionCreate None None (Some ''s1''),
                   Put (Some ''consulate/locks/job-1'') (Acquire (Some ''s1'')) None False,
                   SessionDestroy (Some ''s1'') True]\<rparr>)"
proof -
  let ?s = "init store [''consulate/locks/job-1'']"
  let ?s1 = "?s\<lparr>u_session_id := Some ''s1'',
                  events := events ?s @ [SessionCreate None None (Some ''s1'')]\<rparr>"
  have 1: "create_session store None None ?s = Inr ?s1"
    by (simp add: store_create)
  have 2: "\<not> fst (write_item store (Some ''job-1'') None ?s1)"
    by (simp add: store_run)
  from refused_write_calls_destroy_once [OF 1 2, of 5] show ?thesis
    by (simp add: u_acquire_def store_run)
qed

text \<open>
  On the remote side that does not let go, the one destroy is answered with false; the
  failed \<open>u_acquire\<close> ends with \<open>LockFailure\<close> all the same, and the session it created
  is still live on the remote side.
\<close>

theorem refused_write_session_still_live:
  "u_acquire stuck_store (Some ''job-1'') None None None 5 (init stuck_store [])
     = (Inl LockFailure,
        \<lparr>u_session_id = Some ''s1'', u_ttl_timer = None,
         u_item = Some ''consulate/locks/job-1'', u_prefix = ''consulate/locks'',
         remote = [''s1''],
         events = [SessionCreate None None (Some ''s1''),
                   Put (Some ''consulate/locks/job-1'') (Acquire (Some ''s1'')) None False,
                   SessionDestroy (Some ''s1'') False]\<rparr>)"
  by (simp add: u_acquire_def create_session_def call_create_def write_item_def
        key_or_uuid_def call_put_def call_destroy_def init_def stuck_store_def
        DEFAULT_PREFIX_def)

subsection \<open>The renewal thread of a lease\<close>

text \<open>
  C7. For a successful \<open>u_acquire\<close> with a supplied \<open>ttl\<close> (the session part went
  through and the write was accepted): the interval is \<open>ttl - renew_before_ttl\<close>; one
  thread is started when the interval is positive and none otherwise; the timer field then
  holds a new active daemon thread whose closure has that interval, and otherwise keeps
  what it held; and the thread sleeps that interval after each renewal that succeeded.
  The witness runs the three settings of the specification: 30 and 5 give 25, 10 and 5
  give 5, 10 and 10 start no thread.
\<close>

theorem renewal_interval_and_start:
  assumes "create_session c behavior (Some ttl) s = Inr s1" and "fst (write_item c k v s1)"
  shows "fst (u_acquire c k v behavior (Some ttl) renew_before_ttl s) = Inr () \<and>
         thread_starts (since s (snd (u_acquire c k v behavior (Some ttl) renew_before_ttl s)))
           = (if 0 < ttl - renew_before_ttl then [ttl - renew_before_ttl] else []) \<and>
         u_ttl_timer (snd (u_acquire c k v behavior (Some ttl) renew_before_ttl s))
           = (if 0 < ttl - renew_before_ttl
              then Some \<lparr>active = True, daemon = True, timer_ttl = ttl - renew_before_ttl\<rparr>
              else u_ttl_timer s) \<and>
         sleeps (fst (renew (ttl - renew_before_ttl) ps))
           = replicate (length (filter renew_answer (takeWhile seen_active ps)))
               (ttl - renew_before_ttl)"
  using u_acquire_lease [OF assms, of renew_before_ttl] by (simp add: sleeps_renew)

theorem renewal_interval_and_start_witness:
  "u_ttl_timer (snd (u_acquire store (Some ''job-1'') None None (Some 30) 5 (init store [])))
     = Some \<lparr>active = True, daemon = True, timer_ttl = 25\<rparr> \<and>
   thread_starts (since (init store [])
       (snd (u_acquire store (Some ''job-1'') None None (Some 30) 5 (init store [])))) = [25] \<and>
   u_ttl_timer (snd (u_acquire store (Some ''job-1'') None None (Some 10) 5 (init store [])))
     = Some \<lparr>active = True, daemon = True, timer_ttl = 5\<rparr> \<and>
   thread_starts (since (init store [])
       (snd (u_acquire store (Some ''job-1'') None None (Some 10) 5 (init store [])))) = [5] \<and>
   u_ttl_timer (snd (u_acquire store (Some ''job-1'') None None (Some 10) 10 (init store [])))
     = None \<and>
   thread_starts (since (init store [])
       (snd (u_acquire store (Some ''job-1'') None None (Some 10) 10 (init store [])))) = []"
proof -
  let ?s = "init store []"
  have w: "\<And>t. fst (write_item store (Some ''job-1'') None
             (?s\<lparr>u_session_id := Some ''s1'',
                  events := events ?s @ [SessionCreate None (Some t) (Some ''s1'')]\<rparr>))"
    by (simp add: store_run)
  have 1: "create_session store None (Some 30) ?s
             = Inr (?s\<lparr>u_session_id := Some ''s1'',
                       events := events ?s @ [SessionCreate None (Some (str 30 @ ''s'')) (Some ''s1'')]\<rparr>)"
    by (simp add: store_create)
  have 2: "create_session store None (Some 10) ?s
             = Inr (?s\<lparr>u_session_id := Some ''s1'',
                       events := events ?s @ [SessionCreate None (Some (str 10 @ ''s'')) (Some ''s1'')]\<rparr>)"
    by (simp add: store_create)
  show ?thesis
    using renewal_interval_and_start [OF 1 w, of 5 "[]"]
          renewal_interval_and_start [OF 2 w, of 5 "[]"]
          renewal_interval_and_start [OF 2 w, of 10 "[]"]
    by (simp add: store_init)
qed

subsection \<open>The prefix\<close>

text \<open>
  C9. \<open>prefix value\<close> stores the empty string for \<open>None\<close> and the value otherwise, and
  changes nothing else: the session, the item (so what \<open>key\<close> returns), the timer, the
  remote side and the events are as before. The next \<open>u_acquire\<close> that gets past the
  check of \<open>ttl\<close> computes the item anew as the stored prefix, a slash, and the key or,
  when the key is \<open>None\<close> or empty, a fresh token.
\<close>

theorem prefix_sets_only_the_prefix:
  "u_prefix (prefix value s) = (case value of None \<Rightarrow> [] | Some p \<Rightarrow> p) \<and>
   u_session_id (prefix value s) = u_session_id s \<and>
   u_item (prefix value s) = u_item s \<and>
   key (prefix value s) = key s \<and>
   u_ttl_timer (prefix value s) = u_ttl_timer s \<and>
   remote (prefix value s) = remote s \<and>
   events (prefix value s) = events s \<and>
   u_item (snd (u_acquire c k v behavior ttl rb (prefix value s))) =
     (case create_session c behavior ttl s of
        Inl e \<Rightarrow> u_item s
      | Inr s1 \<Rightarrow>
          Some ((case value of None \<Rightarrow> [] | Some p \<Rightarrow> p) @ ''/'' @
                (case k of
                   None \<Rightarrow> fst (uuid4 c (remote s1))
                 | Some n \<Rightarrow> if n = [] then fst (uuid4 c (remote s1)) else n)))"
proof -
  have "u_item (snd (u_acquire c k v behavior ttl rb (prefix value s))) =
     (case create_session c behavior ttl s of
        Inl e \<Rightarrow> u_item s
      | Inr s1 \<Rightarrow>
          Some ((case value of None \<Rightarrow> [] | Some p \<Rightarrow> p) @ ''/'' @
                (case k of
                   None \<Rightarrow> fst (uuid4 c (remote s1))
                 | Some n \<Rightarrow> if n = [] then fst (uuid4 c (remote s1)) else n)))"
    unfolding u_acquire_item create_session_prefix
    by (cases "create_session c behavior ttl s")
       (simp_all add: key_or_uuid_name prefix_def split: option.splits)
  then show ?thesis by (simp add: prefix_def key_def)
qed

subsection \<open>The handle after a refused write\<close>

text \<open>
  C10. After a refused write the object is not reset, on any handle: the session field
  still holds the id of the session that was just destroyed, and the item, so what \<open>key\<close>
  returns, is the path that was tried. When moreover the timer field of the handle holds
  a thread object, a \<open>u_release\<close> that follows ends normally and issues the write with
  the release query, the delete and the destroy on that path and that destroyed session.
\<close>

theorem refused_write_leaves_session_and_item:
  assumes "create_session c behavior ttl s = Inr s1" and "\<not> fst (write_item c k v s1)"
  shows "\<exists>d.
           fst (u_acquire c k v behavior ttl rb s) = Inl LockFailure \<and>
           last (events (snd (u_acquire c k v behavior ttl rb s)))
             = SessionDestroy (u_session_id s1) d \<and>
           u_session_id (snd (u_acquire c k v behavior ttl rb s)) = u_session_id s1 \<and>
           u_item (snd (u_acquire c k v behavior ttl rb s))
             = Some (u_prefix s @ ''/'' @ fst (key_or_uuid c k s1)) \<and>
           key (snd (u_acquire c k v behavior ttl rb s))
             = Some (u_prefix s @ ''/'' @ fst (key_or_uuid c k s1)) \<and>
           (u_ttl_timer s \<noteq> None \<longrightarrow>
              (\<exists>r1 r2 r3.
                 fst (u_release c (snd (u_acquire c k v behavior ttl rb s))) = Inr () \<and>
                 since (snd (u_acquire c k v behavior ttl rb s))
                       (snd (u_release c (snd (u_acquire c k v behavior ttl rb s)))) =
                   [Put (Some (u_prefix s @ ''/'' @ fst (key_or_uuid c k s1)))
                      (Release (u_session_id s1)) None r1,
                    AdapterDelete (Some (u_prefix s @ ''/'' @ fst (key_or_uuid c k s1))) r2,
                    SessionDestroy (u_session_id s1) r3]))"
proof -
  obtain r s2 where w: "write_item c k v s1 = (r, s2)"
    by (cases "write_item c k v s1")
  note f1 = create_session_frame [OF assms(1)]
  note e2 = write_item_effect [OF w]
  let ?s' = "call_destroy c (u_session_id s1) s2"
  have a: "u_acquire c k v behavior ttl rb s = (Inl LockFailure, ?s')"
    using u_acquire_refused [OF assms(1,2)] w by simp
  obtain d where d: "events ?s' = events s2 @ [SessionDestroy (u_session_id s1) d]"
    using call_destroy_events by blast
  note fd = call_destroy_frame [of c "u_session_id s1" s2]
  have i: "u_item ?s' = Some (u_prefix s @ ''/'' @ fst (key_or_uuid c k s1))"
    using fd e2 f1 by simp
  have sid: "u_session_id ?s' = u_session_id s1"
    using fd e2 by simp
  have rel: "\<exists>r1 r2 r3.
               fst (u_release c ?s') = Inr () \<and>
               since ?s' (snd (u_release c ?s')) =
                 [Put (Some (u_prefix s @ ''/'' @ fst (key_or_uuid c k s1)))
                    (Release (u_session_id s1)) None r1,
                  AdapterDelete (Some (u_prefix s @ ''/'' @ fst (key_or_uuid c k s1))) r2,
                  SessionDestroy (u_session_id s1) r3]"
    if "u_ttl_timer s \<noteq> None"
  proof -
    from that obtain th where "u_ttl_timer s = Some th" by auto
    then have t: "u_ttl_timer ?s' = Some th"
      using fd e2 f1 by simp
    from u_release_held [OF t i, of c] show ?thesis
      using i sid by auto
  qed
  show ?thesis
    using a d rel i sid by (auto simp: key_def)
qed

text \<open>
  The theorem on two handles, with the path \<open>job-1\<close> held by another session. The first
  is new. The second has run and released a lease of 30 seconds on \<open>job-0\<close> before, so its
  timer field holds the stopped thread of that lease.
\<close>

theorem refused_write_leaves_session_and_item_witness:
  "u_acquire store (Some ''job-1'') None None None 5 (init store [''consulate/locks/job-1''])
     = (Inl LockFailure,
        \<lparr>u_session_id = Some ''s1'', u_ttl_timer = None,
         u_item = Some ''consulate/locks/job-1'', u_prefix = ''consulate/locks'',
         remote = [''consulate/locks/job-1''],
         events = [SessionCreate None None (Some ''s1''),
                   Put (Some ''consulate/locks/job-1'') (Acquire (Some ''s1'')) None False,
                   SessionDestroy (Some ''s1'') True]\<rparr>) \<and>
   u_acquire store (Some ''job-1'') None None None 5
     (snd (u_release store
        (snd (u_acquire store (Some ''job-0'') None None (Some 30) 5
                (init store [''consulate/locks/job-1''])))))
     = (Inl LockFailure,
        \<lparr>u_session_id = Some ''s1'',
         u_ttl_timer = Some \<lparr>active = False, daemon = True, timer_ttl = 25\<rparr>,
         u_item = Some ''consulate/locks/job-1'', u_prefix = ''consulate/locks'',
         remote = [''consulate/locks/job-1''],
         events = [SessionCreate None (Some ''30s'') (Some ''s1''),
                   Put (Some ''consulate/locks/job-0'') (Acquire (Some ''s1'')) None True,
                   ThreadStart 25,
                   Put (Some ''consulate/locks/job-0'') (Release (Some ''s1'')) None True,
                   AdapterDelete (Some ''consulate/locks/job-0'') True,
                   SessionDestroy (Some ''s1'') True,
                   SessionCreate None None (Some ''s1''),
                   Put (Some ''consulate/locks/job-1'') (Acquire (Some ''s1'')) None False,
                   SessionDestroy (Some ''s1'') True]\<rparr>) \<and>
   u_release store
     (snd (u_acquire store (Some ''job-1'') None None None 5
        (snd (u_release store
           (snd (u_acquire store (Some ''job-0'') None None (Some 30) 5
                   (init store [''consulate/locks/job-1''])))))))
     = (Inr (),
        \<lparr>u_session_id = None,
         u_ttl_timer = Some \<lparr>active = False, daemon = True, timer_ttl = 25\<rparr>,
         u_item = None, u_prefix = ''consulate/locks'',
         remote = [''consulate/locks/job-1''],
         events = [SessionCreate None (Some ''30s'') (Some ''s1''),
                   Put (Some ''consulate/locks/job-0'') (Acquire (Some ''s1'')) None True,
                   ThreadStart 25,
                   Put (Some ''consulate/locks/job-0'') (Release (Some ''s1'')) None True,
                   AdapterDelete (Some ''consulate/locks/job-0'') True,
                   SessionDestroy (Some ''s1'') True,
                   SessionCreate None None (Some ''s1''),
                   Put (Some ''consulate/locks/job-1'') (Acquire (Some ''s1'')) None False,
                   SessionDestroy (Some ''s1'') True,
                   Put (Some ''consulate/locks/job-1'') (Release (Some ''s1'')) None True,
                   AdapterDelete (Some ''consulate/locks/job-1'') True,
                   SessionDestroy (Some ''s1'') True]\<rparr>)"
proof -
  let ?n = "init store [''consulate/locks/job-1'']"
  let ?n1 = "?n\<lparr>u_session_id := Some ''s1'',
                  events := events ?n @ [SessionCreate None None (Some ''s1'')]\<rparr>"
  let ?u = "\<lparr>u_session_id = None,
             u_ttl_timer = Some \<lparr>active = False, daemon = True, timer_ttl = 25\<rparr>,
             u_item = None, u_prefix = ''consulate/locks'',
             remote = [''consulate/locks/job-1''],
             events = [SessionCreate None (Some ''30s'') (Some ''s1''),
                       Put (Some ''consulate/locks/job-0'') (Acquire (Some ''s1'')) None True,
                       ThreadStart 25,
                       Put (Some ''consulate/locks/job-0'') (Release (Some ''s1'')) None True,
                       AdapterDelete (Some ''consulate/locks/job-0'') True,
                       SessionDestroy (Some ''s1'') True]\<rparr>"
  let ?u1 = "?u\<lparr>u_session_id := Some ''s1'',
                  events := events ?u @ [SessionCreate None None (Some ''s1'')]\<rparr>"
  have used: "snd (u_release store
        (snd (u_acquire store (Some ''job-0'') None None (Some 30) 5 ?n))) = ?u"
    by (simp add: u_acquire_def u_release_def store_run start_timer_effect str_def
          str_nat.simps Let_def)
  have n1: "create_session store None None ?n = Inr ?n1"
    by (simp add: store_create)
  have n2: "\<not> fst (write_item store (Some ''job-1'') None ?n1)"
    by (simp add: store_run)
  have u1: "create_session store None None ?u = Inr ?u1"
    by (simp add: store_create)
  have u2: "\<not> fst (write_item store (Some ''job-1'') None ?u1)"
    by (simp add: store_run)
  show ?thesis
    unfolding used
    using refused_write_leaves_session_and_item [OF n1 n2, of 5]
          refused_write_leaves_session_and_item [OF u1 u2, of 5]
    by (simp add: u_acquire_def u_release_def store_run Let_def)
qed

text \<open>
  On a new handle the release that follows a refused write issues no call at all: it ends
  at line 124 with \<open>AttributeError\<close>, and the state, events included, is as the failed
  \<open>u_acquire\<close> left it.
\<close>

theorem release_after_refused_write_on_new_handle:
  "fst (u_acquire store (Some ''job-1'') None None None 5
          (init store [''consulate/locks/job-1'']))
     = Inl LockFailure \<and>
   u_release store
     (snd (u_acquire store (Some ''job-1'') None None None 5
             (init store [''consulate/locks/job-1''])))
     = (Inl AttributeError,
        \<lparr>u_session_id = Some ''s1'', u_ttl_timer = None,
         u_item = Some ''consulate/locks/job-1'', u_prefix = ''consulate/locks'',
         remote = [''consulate/locks/job-1''],
         events = [SessionCreate None None (Some ''s1''),
                   Put (Some ''consulate/locks/job-1'') (Acquire (Some ''s1'')) None False,
                   SessionDestroy (Some ''s1'') True]\<rparr>)"
  by (simp add: u_acquire_def u_release_def store_run)

subsection \<open>The timer field across a release\<close>

text \<open>
  C8. The timer field is \<open>None\<close> on a new handle and an acquire without \<open>ttl\<close> leaves
  it as it is. \<open>u_release\<close> never sets it to \<open>None\<close>: it clears the flag \<open>active\<close> of the
  thread object the field holds and keeps the object. So after a successful acquire with
  a \<open>ttl\<close> and a positive interval, followed by a release, the session and the item are
  \<open>None\<close> and the field still holds the thread object of that lease, inactive.
\<close>

theorem release_keeps_timer_object:
  assumes "create_session c behavior (Some ttl) s = Inr s1" and "fst (write_item c k v s1)"
    and "0 < ttl - rb"
  shows "fst (u_release c (snd (u_acquire c k v behavior (Some ttl) rb s))) = Inr () \<and>
         u_session_id (snd (u_release c (snd (u_acquire c k v behavior (Some ttl) rb s)))) = None \<and>
         u_item (snd (u_release c (snd (u_acquire c k v behavior (Some ttl) rb s)))) = None \<and>
         u_ttl_timer (snd (u_release c (snd (u_acquire c k v behavior (Some ttl) rb s))))
           = Some \<lparr>active = False, daemon = True, timer_ttl = ttl - rb\<rparr> \<and>
         u_ttl_timer (snd (u_release c s0))
           = map_option (\<lambda>th. th\<lparr>active := False\<rparr>) (u_ttl_timer s0) \<and>
         u_ttl_timer (snd (u_acquire c k v behavior None rb s0)) = u_ttl_timer s0 \<and>
         u_ttl_timer (init c w) = None"
proof -
  let ?s' = "snd (u_acquire c k v behavior (Some ttl) rb s)"
  have t: "u_ttl_timer ?s' = Some \<lparr>active = True, daemon = True, timer_ttl = ttl - rb\<rparr>"
    using u_acquire_lease [OF assms(1,2), of rb] assms(3) by simp
  have i: "u_item ?s' = Some (u_prefix s @ ''/'' @ fst (key_or_uuid c k s1))"
    using assms(1) by (simp add: u_acquire_item)
  from u_release_held [OF t i, of c]
  have "fst (u_release c ?s') = Inr ()" "u_session_id (snd (u_release c ?s')) = None"
    "u_item (snd (u_release c ?s')) = None"
    by blast+
  moreover have "u_ttl_timer (snd (u_release c ?s'))
                   = Some \<lparr>active = False, daemon = True, timer_ttl = ttl - rb\<rparr>"
    using t by (simp add: u_release_timer)
  moreover have "u_ttl_timer (init c w) = None"
    by (simp add: init_def split: prod.splits)
  ultimately show ?thesis
    by (simp add: u_release_timer u_acquire_no_ttl_timer)
qed

theorem release_keeps_timer_object_witness:
  "u_release store (snd (u_acquire store (Some ''job-1'') None None (Some 30) 5 (init store [])))
     = (Inr (),
        \<lparr>u_session_id = None,
         u_ttl_timer = Some \<lparr>active = False, daemon = True, timer_ttl = 25\<rparr>,
         u_item = None, u_prefix = ''consulate/locks'', remote = [],
         events =
           [SessionCreate None (Some ''30s'') (Some ''s1''),
            Put (Some ''consulate/locks/job-1'') (Acquire (Some ''s1'')) None True,
            ThreadStart 25,
            Put (Some ''consulate/locks/job-1'') (Release (Some ''s1'')) None True,
            AdapterDelete (Some ''consulate/locks/job-1'') True,
            SessionDestroy (Some ''s1'') True]\<rparr>)"
proof -
  let ?s = "init store []"
  let ?s1 = "?s\<lparr>u_session_id := Some ''s1'',
                  events := events ?s @ [SessionCreate None (Some (str 30 @ ''s'')) (Some ''s1'')]\<rparr>"
  have 1: "create_session store None (Some 30) ?s = Inr ?s1"
    by (simp add: store_create)
  have 2: "fst (write_item store (Some ''job-1'') None ?s1)"
    by (simp add: store_run)
  have 3: "(0::int) < 30 - 5" by simp
  from release_keeps_timer_object [OF 1 2 3, of "init store []" "[]"] show ?thesis
    by (simp add: u_acquire_def u_release_def store_run start_timer_effect str_def
          str_nat.simps Let_def)
qed

text \<open>
  With no lock held after the release of a lease of 30 seconds, the field is not \<open>None\<close>.
\<close>

theorem timer_field_set_while_unheld:
  "u_session_id (snd (u_release store
      (snd (u_acquire store (Some ''job-1'') None None (Some 30) 5 (init store []))))) = None \<and>
   u_ttl_timer (snd (u_release store
      (snd (u_acquire store (Some ''job-1'') None None (Some 30) 5 (init store []))))) \<noteq> None"
  by (simp add: u_acquire_def u_release_def store_run start_timer_effect str_def
        str_nat.simps Let_def)

subsection \<open>The renewal thread after a renewal that failed\<close>

text \<open>
  C4. A renewal that is answered with false does not end the thread. The thread goes back
  to the test of the flag and calls \<open>renew\<close> again: there is one call for every test
  that finds the flag set, whatever the calls before were answered. It leaves the loop
  when a test finds the flag cleared, and only then; no pass of the loop raises.
\<close>

theorem renew_continues_after_failure:
  "renew_calls (fst (renew tt ps)) = map renew_answer (takeWhile seen_active ps) \<and>
   snd (renew tt ps) = (if list_all seen_active ps then Running else Exited)"
  by (simp add: renew_calls_renew status_renew)

text \<open>
  Three tests find the flag set and every renewal fails: three calls are made, two of
  them after the first failure, before the fourth test finds the flag cleared.
\<close>

theorem renew_called_again_after_failure:
  "renew 25
     [\<lparr>seen_active = True, seen_session_id = Some ''s1'', renew_answer = False\<rparr>,
      \<lparr>seen_active = True, seen_session_id = Some ''s1'', renew_answer = False\<rparr>,
      \<lparr>seen_active = True, seen_session_id = Some ''s1'', renew_answer = False\<rparr>,
      \<lparr>seen_active = False, seen_session_id = None, renew_answer = False\<rparr>]
   = ([LogRenewing, SessionRenew (Some ''s1'') False,
       LogRenewing, SessionRenew (Some ''s1'') False,
       LogRenewing, SessionRenew (Some ''s1'') False,
       LogCeasing], Exited)"
  by simp

subsection \<open>The scoped acquire when the caller's code raises\<close>

text \<open>
  C1. The specification asks that the release steps run when the code inside the
  \<open>with\<close> block raises. Run on a lease of 30 seconds whose body raises: the exception of the body leaves
  \<open>acquire\<close>, and the state is the one \<open>u_acquire\<close> made. The session and the item are
  still set, the thread is still active, and no write with the release query, no delete
  and no destroy is among the events.
\<close>

theorem acquire_body_raises_no_release:
  "acquire store (Some ''job-1'') None None (Some 30) 5
     (\<lambda>s. (Inl (Raised ''boom''), s)) (init store [])
     = (Inl (Raised ''boom''),
        \<lparr>u_session_id = Some ''s1'',
         u_ttl_timer = Some \<lparr>active = True, daemon = True, timer_ttl = 25\<rparr>,
         u_item = Some ''consulate/locks/job-1'', u_prefix = ''consulate/locks'', remote = [],
         events =
           [SessionCreate None (Some ''30s'') (Some ''s1''),
            Put (Some ''consulate/locks/job-1'') (Acquire (Some ''s1'')) None True,
            ThreadStart 25]\<rparr>)"
  by (simp add: acquire_def u_acquire_def store_run start_timer_effect str_def str_nat.simps)

subsection \<open>Release after an acquire without a lease\<close>

text \<open>
  C2. The specification asks that after a successful acquire of \<open>job-1\<close> without
  \<open>ttl\<close> the release completes and resets the session and the item. On a new handle the acquire
  succeeds and leaves the timer field \<open>None\<close>; the release then ends at line 124 with
  \<open>AttributeError\<close>, issues no call, and the session and the item stay set.
\<close>

theorem release_without_lease_raises:
  "u_acquire store (Some ''job-1'') None None None 5 (init store [])
     = (Inr (),
        \<lparr>u_session_id = Some ''s1'', u_ttl_timer = None,
         u_item = Some ''consulate/locks/job-1'', u_prefix = ''consulate/locks'', remote = [],
         events =
           [SessionCreate None None (Some ''s1''),
            Put (Some ''consulate/locks/job-1'') (Acquire (Some ''s1'')) None True]\<rparr>) \<and>
   u_release store (snd (u_acquire store (Some ''job-1'') None None None 5 (init store [])))
     = (Inl AttributeError,
        snd (u_acquire store (Some ''job-1'') None None None 5 (init store [])))"
  by (simp add: u_acquire_def u_release_def store_run start_timer_effect)

subsection \<open>Release on a new handle\<close>

text \<open>
  C3. The specification asks that a release with nothing held is a no-op or an explicit
  error and never a fault on absent state. On a handle as \<open>init\<close> builds it, whatever the
  collaborators, \<open>u_release\<close> ends with the \<open>AttributeError\<close> of the assignment through
  the timer field that is \<open>None\<close>, and the state is unchanged.
\<close>

theorem release_on_new_handle_raises:
  "u_release c (init c w) = (Inl AttributeError, init c w)"
  by (simp add: u_release_def init_def split: prod.splits)

end
